theory Spec2Isabelle
  imports Complex_Main
begin

section \<open>Strings\<close>

text \<open>
  A Python \<open>str\<close> is a sequence of Unicode code points, and \<open>len\<close> and slicing count
  code points. It is modelled as a list of code points; ASCII literals of the source are
  written through \<open>u\<close>, the other literals as their code points.
\<close>

type_synonym ustr = "nat list"

definition u :: "string \<Rightarrow> ustr" where
  "u s = map of_char s"

text \<open>\<open>str.split('\n')\<close>: the pieces between the newlines (code point 10); never empty.\<close>

fun split_nl :: "ustr \<Rightarrow> ustr list" where
  "split_nl [] = [[]]"
| "split_nl (c # cs) =
     (if c = 10 then [] # split_nl cs
      else (case split_nl cs of [] \<Rightarrow> [[c]] | l # ls \<Rightarrow> (c # l) # ls))"

text \<open>\<open>'\n'.join(lines)\<close>.\<close>

fun join_nl :: "ustr list \<Rightarrow> ustr" where
  "join_nl [] = []"
| "join_nl [l] = l"
| "join_nl (l # l' # ls) = l @ 10 # join_nl (l' # ls)"

section \<open>Structured logging\<close>

text \<open>
  The dictionary \<open>log_data\<close> that \<open>log_generation\<close> serialises as one JSON line. The
  wall clock (\<open>datetime.now().isoformat()\<close>) is an input of the model.
\<close>

record log_data =
  log_timestamp :: ustr
  log_step :: ustr
  log_input :: ustr
  log_output :: ustr
  log_reasoning :: ustr
  log_model :: ustr
  duration_seconds :: real
  log_status :: ustr

text \<open>
  \<open>log_generation\<close> (lines 86-103) builds the record and hands it to the logger, which
  appends one line to the log sink; the sink is the list of the records written so far.
  All arguments are strings here, so \<open>json.dumps\<close> does not raise and the \<open>except\<close>
  branch is not taken. The conditional expressions bind as
  \<open>(x[:500] + "...") if len(x) > 500 else x\<close>. The fields carry the prefix \<open>log_\<close>
  of the dictionary they belong to.
\<close>

definition log_generation ::
  "ustr \<Rightarrow> ustr \<Rightarrow> ustr \<Rightarrow> ustr \<Rightarrow> ustr \<Rightarrow> real \<Rightarrow> ustr \<Rightarrow> ustr \<Rightarrow> log_data list \<Rightarrow> log_data list"
where
  "log_generation now input_context outp reasoning model duration status step sink =
     sink @
     [\<lparr> log_timestamp = now,
        log_step = step,
        log_input = (if length input_context > 500 then take 500 input_context @ u ''...''
                     else input_context),
        log_output = (if length outp > 500 then take 500 outp @ u ''...'' else outp),
        log_reasoning = (if reasoning \<noteq> [] \<and> length reasoning > 500
                         then take 500 reasoning @ u ''...'' else reasoning),
        log_model = model,
        duration_seconds = duration,
        log_status = status \<rparr>]"

section \<open>Blockquote formatting of the reasoning text\<close>

text \<open>\<open>format_reasoning_as_quote\<close> (lines 106-112); \<open>"> "\<close> is the code points 62, 32.\<close>

definition format_reasoning_as_quote :: "ustr \<Rightarrow> ustr" where
  "format_reasoning_as_quote reasoning_text =
     (if reasoning_text = [] then []
      else join_nl (map (\<lambda>line. u ''> '' @ line) (split_nl reasoning_text)))"

section \<open>Prompts\<close>

text \<open>
  \<open>prompt_a\<close> (lines 54-73) has the single placeholder \<open>{input}\<close>, followed by a newline;
  \<open>prompt_a user_input\<close> is \<open>prompt_a.format(input=user_input)\<close>. \<open>prompt_b\<close> is the
  literal of lines 75-83, \<open>system_a\<close> and \<open>system_b\<close> the two system preambles
  (lines 152 and 192).
\<close>

definition prompt_a_head :: ustr where
  "prompt_a_head =
    [10, 20320, 26159, 19968, 20301, 19987, 19994, 30340, 37329, 34701, 20998, 26512, 24072,
     21644, 65, 32929, 24066, 22330, 19987, 23478, 12290, 20320, 30340, 20219, 21153, 26159,
     20998, 26512, 26032, 38395, 23545, 65, 32929, 24066, 22330, 30340, 24433, 21709, 12290,
     10, 10, 24403, 29992, 25143, 25552, 20379, 26032, 38395, 20869, 23481, 26102, 65292,
     35831, 32473, 20986, 20197, 19979, 20998, 26512, 32467, 35770, 65306, 10, 10, 49, 46, 32,
     21033, 22909, 65306, 10, 45, 32, 21033, 22909, 21407, 22240, 10, 45, 32, 21463, 30410,
     34892, 19994, 10, 45, 32, 30456, 20851, 65, 32929, 19978, 24066, 20844, 21496, 10, 10,
     50, 46, 32, 21033, 31354, 65306, 10, 45, 32, 21033, 31354, 21407, 22240, 10, 45, 32,
     21463, 25439, 34892, 19994, 10, 10, 27880, 24847, 65292, 22914, 26524, 26032, 38395,
     23545, 65, 32929, 24433, 21709, 19981, 26126, 26174, 65292, 35831, 30452, 25509, 35828,
     26126, 34, 24433, 21709, 26377, 38480, 34, 12290, 10, 10, 26032, 38395, 20869, 23481,
     65306, 10, 10]"

definition prompt_a :: "ustr \<Rightarrow> ustr" where
  "prompt_a user_input = prompt_a_head @ user_input @ [10]"

definition prompt_b :: ustr where
  "prompt_b =
    [10, 20320, 26159, 19968, 20301, 36164, 28145, 30340, 39118, 38505, 20998, 26512, 24072,
     12290, 29616, 22312, 38656, 35201, 20320, 22522, 20110, 21018, 25165, 30340, 26032,
     38395, 23545, 21069, 26399, 20998, 26512, 30340, 21033, 22909, 34892, 19994, 21644,
     20844, 21496, 36827, 34892, 39118, 38505, 25552, 31034, 12290, 10, 10, 35831, 20174,
     34892, 19994, 12289, 20844, 21496, 21450, 26102, 38388, 65288, 30701, 26399, 21644,
     20013, 38271, 26399, 65289, 32500, 24230, 36827, 34892, 39118, 38505, 20998, 26512,
     65306, 10, 10, 27880, 24847, 65292, 20445, 25345, 23458, 35266, 19987, 19994, 65292,
     36991, 20813, 36807, 24230, 24754, 35266, 65307, 39118, 38505, 20998, 26512, 35201,
     26377, 38024, 23545, 24615, 65292, 36991, 20813, 27867, 27867, 32780, 35848, 65307,
     22914, 26524, 35748, 20026, 26576, 39033, 39118, 38505, 29305, 21035, 37325, 35201,
     65292, 35831, 29992, 34, 9888, 65039, 34, 26631, 27880, 10, 10, 22914, 26524, 21069,
     26399, 20998, 26512, 26174, 31034, 34, 24433, 21709, 26377, 38480, 34, 65292, 21017,
     30452, 25509, 22238, 22797, 34, 26080, 38656, 36827, 34892, 39118, 38505, 20998, 26512,
     34, 12290, 10]"

definition system_a :: ustr where
  "system_a =
    [20320, 26159, 19968, 20301, 19987, 19994, 30340, 37329, 34701, 20998, 26512, 24072,
     21644, 65, 32929, 24066, 22330, 19987, 23478, 12290]"

definition system_b :: ustr where
  "system_b =
    [20320, 26159, 19968, 20301, 36164, 28145, 30340, 39118, 38505, 20998, 26512, 24072,
     12290]"

text \<open>
  The two headings of the combined answer (line 223): \<open>"### "\<close>, the chart emoji
  U+1F4CA, a space, four CJK characters and two newlines; then two newlines, \<open>"### "\<close>,
  the warning sign U+26A0 U+FE0F, a space, four CJK characters and two newlines.
\<close>

definition impact_heading :: ustr where
  "impact_heading = [35, 35, 35, 32, 128202, 32, 21033, 22909, 20998, 26512, 10, 10]"

definition risk_heading :: ustr where
  "risk_heading =
     [10, 10, 35, 35, 35, 32, 9888, 65039, 32, 39118, 38505, 25552, 31034, 10, 10]"

section \<open>Session state\<close>

text \<open>
  The dictionaries appended to \<open>st.session_state.messages\<close> and
  \<open>st.session_state.history\<close>, and the session state itself (lines 34-44);
  \<open>input_box\<close> is \<open>st.session_state.user_input\<close>, the value of the text input.
\<close>

record message =
  role :: ustr
  content :: ustr

record history_record =
  timestamp :: ustr
  news :: ustr
  impact_analysis :: ustr
  impact_reasoning :: ustr
  risk_analysis :: ustr
  risk_reasoning :: ustr

record session_state =
  messages :: "message list"
  is_first_message :: bool
  history :: "history_record list"
  should_stop :: bool
  input_box :: ustr

definition fresh_session :: session_state where
  "fresh_session =
     \<lparr> messages = [], is_first_message = True, history = [], should_stop = False,
       input_box = [] \<rparr>"

section \<open>The completion client and the user, as the handlers see them\<close>

text \<open>
  The exceptions of the model: an error of the client or of the transport (with its
  message), the \<open>IndexError\<close> of \<open>chunk.choices[0]\<close> on a chunk without choices, and the
  \<open>UnboundLocalError\<close> of reading a local variable that was never assigned, and the
  \<open>StreamlitAPIException\<close> of assigning to the session-state key of a widget that the
  current run has already instantiated.
\<close>

datatype error = APIError ustr | IndexError | UnboundLocalError | StreamlitAPIException

text \<open>
  \<open>chunk.choices[0].delta\<close>: both increments are optional strings; the loops test them
  for truth, so \<open>None\<close> and the empty string count the same.
\<close>

record delta =
  reasoning_content :: "ustr option"
  delta_content :: "ustr option"

definition text_of :: "ustr option \<Rightarrow> ustr" where
  "text_of x = (case x of None \<Rightarrow> [] | Some t \<Rightarrow> t)"

definition truthy :: "ustr option \<Rightarrow> bool" where
  "truthy x = (text_of x \<noteq> [])"

text \<open>
  What happens while a handler iterates over a response stream, in order of time: a
  chunk arrives (\<open>Chunk\<close>, with its list \<open>choices\<close>), the iterator raises (\<open>Broken\<close>), or
  the user's cancel action sets \<open>st.session_state.should_stop\<close> from outside the loop
  (\<open>Cancel\<close>). The flag is only read by the loop when the next chunk arrives.
\<close>

datatype event = Chunk "delta list" | Cancel | Broken ustr

text \<open>
  The environment of one exchange: whether \<open>st.button\<close> reports the stop button as
  pressed, the client (\<open>client.chat.completions.create\<close> with the fixed model and
  \<open>stream=True\<close>, which raises or returns a stream), and the readings of the clock:
  the measured durations, the time stamps of the log records and the time stamp of the
  history record.
\<close>

record env =
  stop_button :: bool
  create :: "message list \<Rightarrow> ustr + event list"
  impact_duration :: real
  impact_logged_at :: ustr
  risk_duration :: real
  risk_logged_at :: ustr
  history_timestamp :: ustr
  conversation_duration :: real
  conversation_logged_at :: ustr

datatype 'a outcome = Returned 'a | Raised error

section \<open>The streaming loop\<close>

text \<open>
  The three loops (lines 158-168, 200-210, 270-280) are the same code up to the names of
  the two accumulators. \<open>stream_loop evs stop r a\<close> runs the loop on the remaining events
  with the current value of \<open>should_stop\<close> and the accumulators of the reasoning and of
  the answer; it returns the exception raised inside the loop, if any, the final value
  of the flag and the accumulators. The calls that render the accumulators change
  neither the session state nor the log and are left out.
\<close>

fun stream_loop ::
  "event list \<Rightarrow> bool \<Rightarrow> ustr \<Rightarrow> ustr \<Rightarrow> error option \<times> bool \<times> ustr \<times> ustr"
where
  "stream_loop [] stop r a = (None, stop, r, a)"
| "stream_loop (Cancel # evs) stop r a = stream_loop evs True r a"
| "stream_loop (Broken msg # evs) stop r a = (Some (APIError msg), stop, r, a)"
| "stream_loop (Chunk choices # evs) stop r a =
     (if stop then (None, stop, r, a)
      else (case choices of
              [] \<Rightarrow> (Some IndexError, stop, r, a)
            | d # _ \<Rightarrow>
                if truthy (reasoning_content d)
                then stream_loop evs stop (r @ text_of (reasoning_content d)) a
                else if truthy (delta_content d)
                then stream_loop evs stop r (a @ text_of (delta_content d))
                else stream_loop evs stop r a))"

section \<open>The first-message handler\<close>

text \<open>
  \<open>handle_first_message\<close> (lines 128-237) on the session state and the log sink. An
  exception leaves the state as it is at the raise. When the first loop was stopped,
  the block of lines 182-234 is skipped, \<open>second_result\<close> is never assigned, and the
  \<open>return\<close> of line 237 raises \<open>UnboundLocalError\<close>, after line 236 has run.
  \<open>impact_request\<close> and \<open>risk_request\<close> are the message lists of the two requests
  (lines 151-154 and 191-196).
\<close>

definition impact_request :: "ustr \<Rightarrow> message list" where
  "impact_request formatted_prompt =
     [\<lparr>role = u ''system'', content = system_a\<rparr>,
      \<lparr>role = u ''user'', content = formatted_prompt\<rparr>]"

definition risk_request :: "ustr \<Rightarrow> ustr \<Rightarrow> message list" where
  "risk_request formatted_prompt first_result =
     [\<lparr>role = u ''system'', content = system_b\<rparr>,
      \<lparr>role = u ''user'', content = formatted_prompt\<rparr>,
      \<lparr>role = u ''assistant'', content = first_result\<rparr>,
      \<lparr>role = u ''user'', content = prompt_b\<rparr>]"

definition handle_first_message ::
  "env \<Rightarrow> ustr \<Rightarrow> session_state \<times> log_data list
     \<Rightarrow> (ustr \<times> ustr) option outcome \<times> session_state \<times> log_data list"
where
  "handle_first_message e user_input w =
    (let (s0, lg) = w;
         s1 = s0\<lparr>should_stop := False\<rparr>;
         s2 = s1\<lparr>messages := messages s1 @ [\<lparr>role = u ''user'', content = user_input\<rparr>]\<rparr>
     in
     if stop_button e then (Returned None, s2\<lparr>should_stop := True\<rparr>, lg)
     else
       let formatted_prompt = prompt_a user_input in
       case create e (impact_request formatted_prompt) of
         Inl msg \<Rightarrow> (Raised (APIError msg), s2, lg)
       | Inr first_analysis_stream \<Rightarrow>
          (case stream_loop first_analysis_stream (should_stop s2) [] [] of
             (Some err, stop, _, _) \<Rightarrow> (Raised err, s2\<lparr>should_stop := stop\<rparr>, lg)
           | (None, stop, first_reasoning, first_result) \<Rightarrow>
              let s3 = s2\<lparr>should_stop := stop\<rparr>;
                  lg1 = log_generation (impact_logged_at e) formatted_prompt first_result
                          first_reasoning (u ''deepseek-reasoner'') (impact_duration e)
                          (u ''success'') (u ''impact_analysis'') lg
              in
              if \<not> should_stop s3 then
                (case create e (risk_request formatted_prompt first_result) of
                   Inl msg \<Rightarrow> (Raised (APIError msg), s3, lg1)
                 | Inr second_analysis_stream \<Rightarrow>
                    (case stream_loop second_analysis_stream (should_stop s3) [] [] of
                       (Some err, stop, _, _) \<Rightarrow> (Raised err, s3\<lparr>should_stop := stop\<rparr>, lg1)
                     | (None, stop, second_reasoning, second_result) \<Rightarrow>
                        let s4 = s3\<lparr>should_stop := stop\<rparr>;
                            lg2 = log_generation (risk_logged_at e)
                                    (formatted_prompt @ [10, 10] @ first_result @ [10, 10]
                                       @ prompt_b)
                                    second_result second_reasoning (u ''deepseek-reasoner'')
                                    (risk_duration e) (u ''success'') (u ''risk_analysis'') lg1;
                            complete_response =
                              impact_heading @ first_result @ risk_heading @ second_result;
                            s5 = s4\<lparr>messages := messages s4 @
                                    [\<lparr>role = u ''assistant'', content = complete_response\<rparr>]\<rparr>;
                            s6 = s5\<lparr>history := history s5 @
                                    [\<lparr>timestamp = history_timestamp e,
                                      news = user_input,
                                      impact_analysis = first_result,
                                      impact_reasoning = first_reasoning,
                                      risk_analysis = second_result,
                                      risk_reasoning = second_reasoning\<rparr>]\<rparr>;
                            s7 = s6\<lparr>is_first_message := False\<rparr>
                        in (Returned (Some (first_result, second_result)), s7, lg2)))
              else (Raised UnboundLocalError, s3\<lparr>is_first_message := False\<rparr>, lg1)))"

section \<open>The regular-message handler\<close>

text \<open>
  \<open>handle_regular_message\<close> (lines 240-294). The request re-sends
  \<open>st.session_state.messages[:-1]\<close> followed by the new user message.
\<close>

definition handle_regular_message ::
  "env \<Rightarrow> ustr \<Rightarrow> session_state \<times> log_data list
     \<Rightarrow> ustr option outcome \<times> session_state \<times> log_data list"
where
  "handle_regular_message e user_input w =
    (let (s0, lg) = w;
         s1 = s0\<lparr>should_stop := False\<rparr>;
         s2 = s1\<lparr>messages := messages s1 @ [\<lparr>role = u ''user'', content = user_input\<rparr>]\<rparr>;
         request = map (\<lambda>msg. \<lparr>role = role msg, content = content msg\<rparr>) (butlast (messages s2))
                     @ [\<lparr>role = u ''user'', content = user_input\<rparr>]
     in
     if stop_button e then (Returned None, s2\<lparr>should_stop := True\<rparr>, lg)
     else
       case create e request of
         Inl msg \<Rightarrow> (Raised (APIError msg), s2, lg)
       | Inr response_stream \<Rightarrow>
          (case stream_loop response_stream (should_stop s2) [] [] of
             (Some err, stop, _, _) \<Rightarrow> (Raised err, s2\<lparr>should_stop := stop\<rparr>, lg)
           | (None, stop, reasoning, response) \<Rightarrow>
              let s3 = s2\<lparr>should_stop := stop\<rparr>;
                  lg1 = log_generation (conversation_logged_at e) user_input response reasoning
                          (u ''deepseek-reasoner'') (conversation_duration e)
                          (u ''success'') (u ''conversation'') lg;
                  s4 = s3\<lparr>messages := messages s3 @
                          [\<lparr>role = u ''assistant'', content = response\<rparr>]\<rparr>
              in (Returned (Some response), s4, lg1)))"

section \<open>The two buttons of the main page\<close>

text \<open>
  The send button (lines 359-370): an empty input is ignored; an exception of a handler
  is caught at line 369 and shown (the result carries the error shown). When a handler
  returns, line 367 assigns to \<open>st.session_state.user_input\<close>, the key of the text input
  that line 357 has instantiated in the same run: the assignment raises
  \<open>StreamlitAPIException\<close>, which line 369 catches and shows as well, so the input box
  keeps its text and line 368 is not reached. The new-conversation button
  (lines 372-375).
\<close>

definition send_button ::
  "env \<Rightarrow> session_state \<times> log_data list \<Rightarrow> error option \<times> session_state \<times> log_data list"
where
  "send_button e w =
    (let (s, lg) = w; user_input = input_box s in
     if user_input \<noteq> [] then
       (if is_first_message s then
          (case handle_first_message e user_input (s, lg) of
             (Raised err, s', lg') \<Rightarrow> (Some err, s', lg')
           | (Returned _, s', lg') \<Rightarrow> (Some StreamlitAPIException, s', lg'))
        else
          (case handle_regular_message e user_input (s, lg) of
             (Raised err, s', lg') \<Rightarrow> (Some err, s', lg')
           | (Returned _, s', lg') \<Rightarrow> (Some StreamlitAPIException, s', lg')))
     else (None, s, lg))"

definition new_conversation :: "session_state \<Rightarrow> session_state" where
  "new_conversation s = (s\<lparr>messages := []\<rparr>)\<lparr>is_first_message := True\<rparr>"

section \<open>Erasing the content that a reasoning increment shadows\<close>

text \<open>
  \<open>without_shadowed_content\<close> is not code of the program: it rewrites a stream event for
  the statement about chunks that carry both increments, erasing the content increment
  of a chunk whose first choice has a reasoning increment that counts as true.
\<close>

fun without_shadowed_content :: "event \<Rightarrow> event" where
  "without_shadowed_content (Chunk (d # ds)) =
     (if truthy (reasoning_content d) then Chunk (d\<lparr>delta_content := None\<rparr> # ds)
      else Chunk (d # ds))"
| "without_shadowed_content ev = ev"

section \<open>Example environments\<close>

text \<open>
  Concrete inputs on which the theorems below are instantiated: chunks with one kind of
  increment, clients that answer every request the same way, and an environment with
  a clock that reads zero.
\<close>

definition thought :: "ustr \<Rightarrow> event" where
  "thought t = Chunk [\<lparr>reasoning_content = Some t, delta_content = None\<rparr>]"

definition answer :: "ustr \<Rightarrow> event" where
  "answer t = Chunk [\<lparr>reasoning_content = None, delta_content = Some t\<rparr>]"

definition example_env :: "bool \<Rightarrow> (message list \<Rightarrow> ustr + event list) \<Rightarrow> env" where
  "example_env pressed client =
     \<lparr> stop_button = pressed, create = client,
       impact_duration = 0, impact_logged_at = [], risk_duration = 0, risk_logged_at = [],
       history_timestamp = [], conversation_duration = 0, conversation_logged_at = [] \<rparr>"

definition steady_client :: "message list \<Rightarrow> ustr + event list" where
  "steady_client request = Inr [thought (u ''hm''), answer (u ''up'')]"

definition silent_client :: "message list \<Rightarrow> ustr + event list" where
  "silent_client request = Inr [thought (u ''hm'')]"

definition failing_client :: "message list \<Rightarrow> ustr + event list" where
  "failing_client request = Inl (u ''timeout'')"

definition broken_stream_client :: "message list \<Rightarrow> ustr + event list" where
  "broken_stream_client request = Inr [answer (u ''up''), Broken (u ''reset'')]"

definition cancelled_at_once_client :: "message list \<Rightarrow> ustr + event list" where
  "cancelled_at_once_client request = Inr [Cancel, answer (u ''up'')]"

definition cancelled_midway_client :: "message list \<Rightarrow> ustr + event list" where
  "cancelled_midway_client request = Inr [answer (u ''up''), Cancel, answer (u ''side'')]"

text \<open>The first request (two messages) is answered in full, the second one is cancelled.\<close>

definition cancelled_in_risk_client :: "message list \<Rightarrow> ustr + event list" where
  "cancelled_in_risk_client request =
     (if length request = 2 then Inr [answer (u ''up'')]
      else Inr [answer (u ''ri''), Cancel, answer (u ''sk'')])"

section \<open>Lines of a text\<close>

lemma split_nl_not_Nil: "split_nl t \<noteq> []"
  by (induction t) (auto split: list.splits)

lemma split_nl_no_newline: "l \<in> set (split_nl t) \<Longrightarrow> 10 \<notin> set l"
  by (induction t arbitrary: l) (auto split: if_splits list.splits)

lemma split_nl_line: "10 \<notin> set l \<Longrightarrow> split_nl l = [l]"
  by (induction l) auto

lemma split_nl_append: "10 \<notin> set l \<Longrightarrow> split_nl (l @ 10 # rest) = l # split_nl rest"
  by (induction l) (auto split: list.splits)

text \<open>Splitting undoes joining, for lines without a newline.\<close>

lemma split_join_nl:
  "ls \<noteq> [] \<Longrightarrow> \<forall>l\<in>set ls. 10 \<notin> set l \<Longrightarrow> split_nl (join_nl ls) = ls"
  by (induction ls rule: join_nl.induct) (auto simp: split_nl_line split_nl_append)

section \<open>The paths through the first-message handler\<close>

text \<open>The stop button is reported as pressed: the early return of line 142.\<close>

lemma first_message_pressed:
  "stop_button e \<Longrightarrow>
   handle_first_message e user_input (s, lg) =
     (Returned None,
      s\<lparr>should_stop := True,
        messages := messages s @ [\<lparr>role = u ''user'', content = user_input\<rparr>]\<rparr>, lg)"
  by (simp add: handle_first_message_def)

text \<open>The flag is set when the first loop is left: line 236, then the raise of line 237.\<close>

lemma first_message_cancelled:
  assumes "\<not> stop_button e"
    and "create e (impact_request (prompt_a user_input)) = Inr evs1"
    and "stream_loop evs1 False [] [] = (None, True, r1, a1)"
  shows "handle_first_message e user_input (s, lg) =
     (Raised UnboundLocalError,
      s\<lparr>should_stop := True,
        messages := messages s @ [\<lparr>role = u ''user'', content = user_input\<rparr>],
        is_first_message := False\<rparr>,
      log_generation (impact_logged_at e) (prompt_a user_input) a1 r1 (u ''deepseek-reasoner'')
        (impact_duration e) (u ''success'') (u ''impact_analysis'') lg)"
  using assms by (simp add: handle_first_message_def Let_def)

text \<open>Both loops are left without an exception, the first one with the flag not set.\<close>

lemma first_message_committed:
  assumes "\<not> stop_button e"
    and "create e (impact_request (prompt_a user_input)) = Inr evs1"
    and "stream_loop evs1 False [] [] = (None, False, r1, a1)"
    and "create e (risk_request (prompt_a user_input) a1) = Inr evs2"
    and "stream_loop evs2 False [] [] = (None, stop2, r2, a2)"
  shows "handle_first_message e user_input (s, lg) =
     (Returned (Some (a1, a2)),
      s\<lparr>should_stop := stop2,
        messages := messages s @
          [\<lparr>role = u ''user'', content = user_input\<rparr>,
           \<lparr>role = u ''assistant'', content = impact_heading @ a1 @ risk_heading @ a2\<rparr>],
        history := history s @
          [\<lparr>timestamp = history_timestamp e, news = user_input, impact_analysis = a1,
            impact_reasoning = r1, risk_analysis = a2, risk_reasoning = r2\<rparr>],
        is_first_message := False\<rparr>,
      log_generation (risk_logged_at e)
        (prompt_a user_input @ [10, 10] @ a1 @ [10, 10] @ prompt_b) a2 r2
        (u ''deepseek-reasoner'') (risk_duration e) (u ''success'') (u ''risk_analysis'')
        (log_generation (impact_logged_at e) (prompt_a user_input) a1 r1
           (u ''deepseek-reasoner'') (impact_duration e) (u ''success'') (u ''impact_analysis'')
           lg))"
  using assms by (simp add: handle_first_message_def Let_def)

text \<open>
  The four places at which a request raises: the client on the first request, the
  first loop (the iterator, or a chunk without choices), the client on the second
  request, and the second loop. The state is the one at the raise.
\<close>

lemma impact_request_raised:
  assumes "\<not> stop_button e"
    and "create e (impact_request (prompt_a user_input)) = Inl msg"
  shows "handle_first_message e user_input (s, lg) =
     (Raised (APIError msg),
      s\<lparr>should_stop := False,
        messages := messages s @ [\<lparr>role = u ''user'', content = user_input\<rparr>]\<rparr>, lg)"
  using assms by (simp add: handle_first_message_def Let_def)

lemma impact_stream_raised:
  assumes "\<not> stop_button e"
    and "create e (impact_request (prompt_a user_input)) = Inr evs1"
    and "stream_loop evs1 False [] [] = (Some err, stop1, r1, a1)"
  shows "handle_first_message e user_input (s, lg) =
     (Raised err,
      s\<lparr>should_stop := stop1,
        messages := messages s @ [\<lparr>role = u ''user'', content = user_input\<rparr>]\<rparr>, lg)"
  using assms by (simp add: handle_first_message_def Let_def)

lemma risk_request_raised:
  assumes "\<not> stop_button e"
    and "create e (impact_request (prompt_a user_input)) = Inr evs1"
    and "stream_loop evs1 False [] [] = (None, False, r1, a1)"
    and "create e (risk_request (prompt_a user_input) a1) = Inl msg"
  shows "handle_first_message e user_input (s, lg) =
     (Raised (APIError msg),
      s\<lparr>should_stop := False,
        messages := messages s @ [\<lparr>role = u ''user'', content = user_input\<rparr>]\<rparr>,
      log_generation (impact_logged_at e) (prompt_a user_input) a1 r1 (u ''deepseek-reasoner'')
        (impact_duration e) (u ''success'') (u ''impact_analysis'') lg)"
  using assms by (simp add: handle_first_message_def Let_def)

lemma risk_stream_raised:
  assumes "\<not> stop_button e"
    and "create e (impact_request (prompt_a user_input)) = Inr evs1"
    and "stream_loop evs1 False [] [] = (None, False, r1, a1)"
    and "create e (risk_request (prompt_a user_input) a1) = Inr evs2"
    and "stream_loop evs2 False [] [] = (Some err, stop2, r2, a2)"
  shows "handle_first_message e user_input (s, lg) =
     (Raised err,
      s\<lparr>should_stop := stop2,
        messages := messages s @ [\<lparr>role = u ''user'', content = user_input\<rparr>]\<rparr>,
      log_generation (impact_logged_at e) (prompt_a user_input) a1 r1 (u ''deepseek-reasoner'')
        (impact_duration e) (u ''success'') (u ''impact_analysis'') lg)"
  using assms by (simp add: handle_first_message_def Let_def)

text \<open>The loops of the example clients.\<close>

lemma steady_loop:
  "stream_loop [thought (u ''hm''), answer (u ''up'')] False [] [] =
     (None, False, u ''hm'', u ''up'')"
  by (simp add: thought_def answer_def truthy_def text_of_def u_def)

lemma silent_loop: "stream_loop [thought (u ''hm'')] False [] [] = (None, False, u ''hm'', [])"
  by (simp add: thought_def truthy_def text_of_def u_def)

lemma cancelled_midway_loop:
  "stream_loop [answer (u ''up''), Cancel, answer (u ''side'')] False [] [] =
     (None, True, [], u ''up'')"
  by (simp add: answer_def truthy_def text_of_def u_def)

lemma broken_loop:
  "stream_loop [answer (u ''up''), Broken (u ''reset'')] False [] [] =
     (Some (APIError (u ''reset'')), False, [], u ''up'')"
  by (simp add: answer_def truthy_def text_of_def u_def)

lemma answered_loop: "stream_loop [answer (u ''up'')] False [] [] = (None, False, [], u ''up'')"
  by (simp add: answer_def truthy_def text_of_def u_def)

lemma cancelled_in_risk_loop:
  "stream_loop [answer (u ''ri''), Cancel, answer (u ''sk'')] False [] [] =
     (None, True, [], u ''ri'')"
  by (simp add: answer_def truthy_def text_of_def u_def)

text \<open>What one call of \<open>log_generation\<close> adds to the sink.\<close>

lemma log_generation_steps:
  "map log_step (log_generation now inp outp rs m d st sp sink) = map log_step sink @ [sp]"
  by (simp add: log_generation_def)

lemma log_generation_statuses:
  "map log_status (log_generation now inp outp rs m d st sp sink) = map log_status sink @ [st]"
  by (simp add: log_generation_def)

lemma log_generation_appends:
  "\<exists>l. log_generation now inp outp rs m d st sp sink = sink @ [l] \<and>
       log_step l = sp \<and> log_status l = st"
  by (simp add: log_generation_def)

text \<open>The loop does not read the content increment of a chunk that has a reasoning increment.\<close>

lemma stream_loop_erase:
  "stream_loop (map without_shadowed_content evs) stop r a = stream_loop evs stop r a"
  by (induction evs stop r a rule: stream_loop.induct)
     (auto simp: truthy_def text_of_def split: list.splits)

section \<open>The first exchange of a session\<close>

text \<open>
  C1, where the claim fails: a run that is not cancelled and raises nothing appends a
  history record whose two analysis texts are empty, when the streams deliver no answer
  text (here: one chunk with a reasoning increment only, for each request).
\<close>

theorem first_exchange_empty_answers_counterexample:
  "fst (handle_first_message (example_env False silent_client) (u ''news'') (fresh_session, []))
     = Returned (Some ([], [])) \<and>
   should_stop (fst (snd (handle_first_message (example_env False silent_client) (u ''news'')
     (fresh_session, [])))) = False \<and>
   map impact_analysis (history (fst (snd (handle_first_message
     (example_env False silent_client) (u ''news'') (fresh_session, []))))) = [[]] \<and>
   map risk_analysis (history (fst (snd (handle_first_message
     (example_env False silent_client) (u ''news'') (fresh_session, []))))) = [[]]"
  using first_message_committed
    [of "example_env False silent_client" "u ''news''" "[thought (u ''hm'')]" "u ''hm''" "[]"
        "[thought (u ''hm'')]" False "u ''hm''" "[]" fresh_session "[]"]
  by (simp add: example_env_def silent_client_def silent_loop fresh_session_def)

text \<open>
  C1, amended: when the stop button is not pressed, both requests return a stream and
  both loops end without an exception and with the stop flag not set, the handler
  returns the two accumulated answers, exactly two log records are written, the first
  with step \<open>impact_analysis\<close> and the second with step \<open>risk_analysis\<close>, both with status
  \<open>success\<close>, and exactly one history record is appended, whose \<open>impact_analysis\<close> and
  \<open>risk_analysis\<close> are the two accumulated answers, empty or not.
\<close>

theorem first_exchange_logs_and_history:
  assumes "\<not> stop_button e"
    and "create e (impact_request (prompt_a user_input)) = Inr evs1"
    and "stream_loop evs1 False [] [] = (None, False, r1, a1)"
    and "create e (risk_request (prompt_a user_input) a1) = Inr evs2"
    and "stream_loop evs2 False [] [] = (None, False, r2, a2)"
  shows "fst (handle_first_message e user_input (s, lg)) = Returned (Some (a1, a2)) \<and>
         map log_step (snd (snd (handle_first_message e user_input (s, lg)))) =
           map log_step lg @ [u ''impact_analysis'', u ''risk_analysis''] \<and>
         map log_status (snd (snd (handle_first_message e user_input (s, lg)))) =
           map log_status lg @ [u ''success'', u ''success''] \<and>
         history (fst (snd (handle_first_message e user_input (s, lg)))) =
           history s @
           [\<lparr>timestamp = history_timestamp e, news = user_input, impact_analysis = a1,
             impact_reasoning = r1, risk_analysis = a2, risk_reasoning = r2\<rparr>]"
  using first_message_committed [OF assms]
  by (simp add: log_generation_steps log_generation_statuses)

text \<open>The amended C1 on a fresh session and a client that answers \<open>up\<close> to both requests.\<close>

theorem first_exchange_logs_and_history_witness:
  "map log_step (snd (snd (handle_first_message (example_env False steady_client) (u ''news'')
      (fresh_session, [])))) = [u ''impact_analysis'', u ''risk_analysis''] \<and>
   map impact_analysis (history (fst (snd (handle_first_message
      (example_env False steady_client) (u ''news'') (fresh_session, []))))) = [u ''up''] \<and>
   map risk_analysis (history (fst (snd (handle_first_message
      (example_env False steady_client) (u ''news'') (fresh_session, []))))) = [u ''up'']"
  using first_exchange_logs_and_history
    [of "example_env False steady_client" "u ''news''" "[thought (u ''hm''), answer (u ''up'')]"
        "u ''hm''" "u ''up''" "[thought (u ''hm''), answer (u ''up'')]" "u ''hm''" "u ''up''"
        fresh_session "[]"]
  by (simp add: example_env_def steady_client_def steady_loop fresh_session_def)

text \<open>
  C5: in a run that is not cancelled (stop button not pressed, both loops left without
  an exception and with the flag not set), the message list gains the user's message
  and then one assistant message, whose content is exactly the string of line 223:
  \<open>"### "\<close>, U+1F4CA, a space, the four characters U+5229 U+597D U+5206 U+6790 and two
  newlines; the first answer; two newlines, \<open>"### "\<close>, U+26A0 U+FE0F, a space, the four
  characters U+98CE U+9669 U+63D0 U+793A and two newlines; the second answer.
\<close>

theorem assistant_message_content:
  assumes "\<not> stop_button e"
    and "create e (impact_request (prompt_a user_input)) = Inr evs1"
    and "stream_loop evs1 False [] [] = (None, False, reasoning1, answer1)"
    and "create e (risk_request (prompt_a user_input) answer1) = Inr evs2"
    and "stream_loop evs2 False [] [] = (None, False, reasoning2, answer2)"
  shows "messages (fst (snd (handle_first_message e user_input (s, lg)))) =
           messages s @
           [\<lparr>role = [117, 115, 101, 114], content = user_input\<rparr>,
            \<lparr>role = [97, 115, 115, 105, 115, 116, 97, 110, 116],
              content =
                [35, 35, 35, 32, 128202, 32, 21033, 22909, 20998, 26512, 10, 10] @ answer1 @
                [10, 10, 35, 35, 35, 32, 9888, 65039, 32, 39118, 38505, 25552, 31034, 10, 10] @
                answer2\<rparr>]"
  using first_message_committed [OF assms]
  by (simp add: impact_heading_def risk_heading_def u_def)

text \<open>
  C5 on a fresh session, the news \<open>n\<close> and a client that answers \<open>up\<close> (117, 112) to both
  requests.
\<close>

theorem assistant_message_content_witness:
  "messages (fst (snd (handle_first_message (example_env False steady_client) [110]
      (fresh_session, [])))) =
     [\<lparr>role = [117, 115, 101, 114], content = [110]\<rparr>,
      \<lparr>role = [97, 115, 115, 105, 115, 116, 97, 110, 116],
        content =
          [35, 35, 35, 32, 128202, 32, 21033, 22909, 20998, 26512, 10, 10, 117, 112,
           10, 10, 35, 35, 35, 32, 9888, 65039, 32, 39118, 38505, 25552, 31034, 10, 10,
           117, 112]\<rparr>]"
proof -
  have "messages (fst (snd (handle_first_message (example_env False steady_client) [110]
          (fresh_session, [])))) =
        messages fresh_session @
        [\<lparr>role = [117, 115, 101, 114], content = [110]\<rparr>,
         \<lparr>role = [97, 115, 115, 105, 115, 116, 97, 110, 116],
           content =
             [35, 35, 35, 32, 128202, 32, 21033, 22909, 20998, 26512, 10, 10] @ u ''up'' @
             [10, 10, 35, 35, 35, 32, 9888, 65039, 32, 39118, 38505, 25552, 31034, 10, 10] @
             u ''up''\<rparr>]"
    using assistant_message_content
      [of "example_env False steady_client" "[110]" "[thought (u ''hm''), answer (u ''up'')]"
          "u ''hm''" "u ''up''" "[thought (u ''hm''), answer (u ''up'')]" "u ''hm''" "u ''up''"
          fresh_session "[]"]
    by (simp add: example_env_def steady_client_def steady_loop)
  then show ?thesis by (simp add: fresh_session_def u_def)
qed

section \<open>Cancelled exchanges\<close>

text \<open>
  C2, where the claim fails. The user's message is appended before anything else
  (line 130), so a run cancelled during the first stream still appends one message;
  and nothing reads the flag after the second loop, so a run cancelled during the
  second stream appends the assistant message and the history record.
\<close>

theorem cancelled_exchange_appends_counterexample:
  "length (messages (fst (snd (handle_first_message
      (example_env False cancelled_midway_client) (u ''news'') (fresh_session, []))))) = 1 \<and>
   length (messages (fst (snd (handle_first_message
      (example_env False cancelled_in_risk_client) (u ''news'') (fresh_session, []))))) = 2 \<and>
   length (history (fst (snd (handle_first_message
      (example_env False cancelled_in_risk_client) (u ''news'') (fresh_session, []))))) = 1 \<and>
   should_stop (fst (snd (handle_first_message
      (example_env False cancelled_in_risk_client) (u ''news'') (fresh_session, [])))) = True"
  using first_message_cancelled
    [of "example_env False cancelled_midway_client" "u ''news''"
        "[answer (u ''up''), Cancel, answer (u ''side'')]" "[]" "u ''up''" fresh_session "[]"]
    first_message_committed
    [of "example_env False cancelled_in_risk_client" "u ''news''" "[answer (u ''up'')]" "[]"
        "u ''up''" "[answer (u ''ri''), Cancel, answer (u ''sk'')]" True "[]" "u ''ri''"
        fresh_session "[]"]
  by (simp add: example_env_def cancelled_midway_client_def cancelled_in_risk_client_def
        cancelled_midway_loop answered_loop cancelled_in_risk_loop fresh_session_def
        impact_request_def risk_request_def)

text \<open>
  C2, amended: when the stop button is pressed, or the stop flag is set by the time the
  first loop is left (so that the check of line 181 sees it and the second request is
  never opened), the message list gains the user's message and nothing else, and the
  history list is unchanged.
\<close>

theorem cancelled_before_risk_request:
  assumes "stop_button e \<or>
           (create e (impact_request (prompt_a user_input)) = Inr evs1 \<and>
            stream_loop evs1 False [] [] = (None, True, r1, a1))"
  shows "messages (fst (snd (handle_first_message e user_input (s, lg)))) =
           messages s @ [\<lparr>role = u ''user'', content = user_input\<rparr>] \<and>
         history (fst (snd (handle_first_message e user_input (s, lg)))) = history s"
proof (cases "stop_button e")
  case True
  then show ?thesis by (simp add: first_message_pressed)
next
  case False
  with assms show ?thesis by (simp add: first_message_cancelled)
qed

text \<open>The amended C2 on a run cancelled after the first answer chunk.\<close>

theorem cancelled_before_risk_request_witness:
  "messages (fst (snd (handle_first_message (example_env False cancelled_midway_client)
      (u ''news'') (fresh_session, [])))) = [\<lparr>role = u ''user'', content = u ''news''\<rparr>] \<and>
   history (fst (snd (handle_first_message (example_env False cancelled_midway_client)
      (u ''news'') (fresh_session, [])))) = []"
  using cancelled_before_risk_request
    [of "example_env False cancelled_midway_client" "u ''news''"
        "[answer (u ''up''), Cancel, answer (u ''side'')]" "[]" "u ''up''" fresh_session "[]"]
  by (simp add: example_env_def cancelled_midway_client_def cancelled_midway_loop
        fresh_session_def)

text \<open>
  C4, where the claim fails: the user cancels after the first request was opened and
  before the stream has delivered anything; the loop breaks at the first chunk, and
  \<open>log_generation\<close> is still called (line 171 is not guarded): one log record, with an
  empty output, where the claim has none.
\<close>

theorem cancelled_before_output_logs_counterexample:
  "length (snd (snd (handle_first_message (example_env False cancelled_at_once_client)
      (u ''news'') (fresh_session, [])))) = 1 \<and>
   map log_output (snd (snd (handle_first_message (example_env False cancelled_at_once_client)
      (u ''news'') (fresh_session, [])))) = [[]]"
  using first_message_cancelled
    [of "example_env False cancelled_at_once_client" "u ''news''" "[Cancel, answer (u ''up'')]"
        "[]" "[]" fresh_session "[]"]
  by (simp add: example_env_def cancelled_at_once_client_def answer_def log_generation_def)

text \<open>
  C4, amended: when the stop button is pressed, before the first request is opened, no
  log record is written; when it is not pressed and the stop flag is set by the time
  the first loop is left, exactly one log record is written, with step
  \<open>impact_analysis\<close> and status \<open>success\<close>, whether or not the stream had delivered
  output before the cancellation.
\<close>

theorem cancelled_first_stream_logs:
  "(stop_button e \<longrightarrow> snd (snd (handle_first_message e user_input (s, lg))) = lg) \<and>
   (\<not> stop_button e \<and> create e (impact_request (prompt_a user_input)) = Inr evs1 \<and>
    stream_loop evs1 False [] [] = (None, True, r1, a1) \<longrightarrow>
      (\<exists>l. snd (snd (handle_first_message e user_input (s, lg))) = lg @ [l] \<and>
           log_step l = u ''impact_analysis'' \<and> log_status l = u ''success''))"
  using log_generation_appends
  by (auto simp: first_message_pressed first_message_cancelled)

text \<open>
  The amended C4 on a run with the stop button pressed and on a run cancelled after
  the first answer chunk.
\<close>

theorem cancelled_first_stream_logs_witness:
  "snd (snd (handle_first_message (example_env True steady_client) (u ''news'')
      (fresh_session, []))) = [] \<and>
   map log_step (snd (snd (handle_first_message (example_env False cancelled_midway_client)
      (u ''news'') (fresh_session, [])))) = [u ''impact_analysis''] \<and>
   map log_status (snd (snd (handle_first_message (example_env False cancelled_midway_client)
      (u ''news'') (fresh_session, [])))) = [u ''success'']"
  using cancelled_first_stream_logs
      [of "example_env True steady_client" "u ''news''" fresh_session "[]"]
    cancelled_first_stream_logs
      [of "example_env False cancelled_midway_client" "u ''news''" fresh_session "[]"
          "[answer (u ''up''), Cancel, answer (u ''side'')]" "[]" "u ''up''"]
  by (auto simp: example_env_def cancelled_midway_client_def cancelled_midway_loop)

text \<open>
  C9, where the claim fails: an invocation that finds the stop button pressed returns
  at line 142, and an invocation whose request raises never reaches line 236; both
  leave \<open>is_first_message\<close> as it was.
\<close>

theorem first_message_flag_kept_counterexample:
  "fst (handle_first_message (example_env True steady_client) (u ''news'') (fresh_session, []))
     = Returned None \<and>
   should_stop (fst (snd (handle_first_message (example_env True steady_client) (u ''news'')
     (fresh_session, [])))) = True \<and>
   is_first_message (fst (snd (handle_first_message (example_env True steady_client) (u ''news'')
     (fresh_session, [])))) = True \<and>
   is_first_message (fst (snd (handle_first_message (example_env False failing_client)
     (u ''news'') (fresh_session, [])))) = True"
  by (simp add: first_message_pressed handle_first_message_def example_env_def
        failing_client_def fresh_session_def)

text \<open>
  C9, amended: \<open>handle_first_message\<close> sets \<open>is_first_message\<close> to false in every
  invocation in which the stop button is not pressed and neither request raises,
  including the runs in which the stop flag is set by the time the first loop is left,
  before either analysis is complete; an invocation that finds the stop button pressed,
  or in which a request raises (the client or the loop, of the first or of the second
  request), leaves \<open>is_first_message\<close> as it was. The seven cases are all the paths
  through the handler.
\<close>

theorem is_first_message_after_exchange:
  "(stop_button e \<longrightarrow>
      is_first_message (fst (snd (handle_first_message e user_input (s, lg)))) =
        is_first_message s) \<and>
   (\<not> stop_button e \<and> create e (impact_request (prompt_a user_input)) = Inl msg1 \<longrightarrow>
      is_first_message (fst (snd (handle_first_message e user_input (s, lg)))) =
        is_first_message s) \<and>
   (\<not> stop_button e \<and> create e (impact_request (prompt_a user_input)) = Inr evs1 \<longrightarrow>
      (stream_loop evs1 False [] [] = (Some err1, stop1, r1, a1) \<longrightarrow>
         is_first_message (fst (snd (handle_first_message e user_input (s, lg)))) =
           is_first_message s) \<and>
      (stream_loop evs1 False [] [] = (None, True, r1, a1) \<longrightarrow>
         is_first_message (fst (snd (handle_first_message e user_input (s, lg)))) = False) \<and>
      (stream_loop evs1 False [] [] = (None, False, r1, a1) \<and>
       create e (risk_request (prompt_a user_input) a1) = Inl msg2 \<longrightarrow>
         is_first_message (fst (snd (handle_first_message e user_input (s, lg)))) =
           is_first_message s) \<and>
      (stream_loop evs1 False [] [] = (None, False, r1, a1) \<and>
       create e (risk_request (prompt_a user_input) a1) = Inr evs2 \<and>
       stream_loop evs2 False [] [] = (Some err2, stop2, r2, a2) \<longrightarrow>
         is_first_message (fst (snd (handle_first_message e user_input (s, lg)))) =
           is_first_message s) \<and>
      (stream_loop evs1 False [] [] = (None, False, r1, a1) \<and>
       create e (risk_request (prompt_a user_input) a1) = Inr evs2 \<and>
       stream_loop evs2 False [] [] = (None, stop2, r2, a2) \<longrightarrow>
         is_first_message (fst (snd (handle_first_message e user_input (s, lg)))) = False))"
  by (simp add: first_message_pressed impact_request_raised impact_stream_raised
        first_message_cancelled risk_request_raised risk_stream_raised
        first_message_committed)

text \<open>
  The amended C9 on a fresh session, where \<open>is_first_message\<close> is true: a run cancelled
  before the first chunk and a run that is not cancelled clear it; a run with the stop
  button pressed and a run whose first request raises keep it.
\<close>

theorem is_first_message_after_exchange_witness:
  "is_first_message fresh_session = True \<and>
   is_first_message (fst (snd (handle_first_message
     (example_env False cancelled_at_once_client) (u ''news'') (fresh_session, [])))) = False \<and>
   is_first_message (fst (snd (handle_first_message
     (example_env False steady_client) (u ''news'') (fresh_session, [])))) = False \<and>
   is_first_message (fst (snd (handle_first_message
     (example_env True steady_client) (u ''news'') (fresh_session, [])))) = True \<and>
   is_first_message (fst (snd (handle_first_message
     (example_env False failing_client) (u ''news'') (fresh_session, [])))) = True"
proof -
  have cancelled: "is_first_message (fst (snd (handle_first_message
      (example_env False cancelled_at_once_client) (u ''news'') (fresh_session, [])))) = False"
    using is_first_message_after_exchange
      [of "example_env False cancelled_at_once_client" "u ''news''" fresh_session "[]" "[]"
          "[Cancel, answer (u ''up'')]" IndexError False "[]" "[]" "[]" "[]" IndexError False
          "[]" "[]"]
    by (simp add: example_env_def cancelled_at_once_client_def answer_def)
  have complete: "is_first_message (fst (snd (handle_first_message
      (example_env False steady_client) (u ''news'') (fresh_session, [])))) = False"
    using is_first_message_after_exchange
      [of "example_env False steady_client" "u ''news''" fresh_session "[]" "[]"
          "[thought (u ''hm''), answer (u ''up'')]" IndexError False "u ''hm''" "u ''up''" "[]"
          "[thought (u ''hm''), answer (u ''up'')]" IndexError False "u ''hm''" "u ''up''"]
    by (simp add: example_env_def steady_client_def steady_loop)
  have pressed: "is_first_message (fst (snd (handle_first_message
      (example_env True steady_client) (u ''news'') (fresh_session, [])))) = True"
    using is_first_message_after_exchange
      [of "example_env True steady_client" "u ''news''" fresh_session "[]" "[]"
          "[]" IndexError False "[]" "[]" "[]" "[]" IndexError False "[]" "[]"]
    by (simp add: example_env_def fresh_session_def)
  have raised: "is_first_message (fst (snd (handle_first_message
      (example_env False failing_client) (u ''news'') (fresh_session, [])))) = True"
    using is_first_message_after_exchange
      [of "example_env False failing_client" "u ''news''" fresh_session "[]" "u ''timeout''"
          "[]" IndexError False "[]" "[]" "[]" "[]" IndexError False "[]" "[]"]
    by (simp add: example_env_def failing_client_def fresh_session_def)
  from cancelled complete pressed raised show ?thesis by (simp add: fresh_session_def)
qed

section \<open>Exceptions of the requests\<close>

text \<open>
  C3, where the claim fails: the first request raises, the exception leaves the
  handler, and the message list, empty before, holds the user's message.
\<close>

theorem request_exception_keeps_user_message_counterexample:
  "fst (handle_first_message (example_env False failing_client) (u ''news'') (fresh_session, []))
     = Raised (APIError (u ''timeout'')) \<and>
   messages fresh_session = [] \<and>
   messages (fst (snd (handle_first_message (example_env False failing_client) (u ''news'')
     (fresh_session, [])))) = [\<lparr>role = u ''user'', content = u ''news''\<rparr>]"
  by (simp add: handle_first_message_def example_env_def failing_client_def fresh_session_def)

text \<open>
  C3, amended: when an exception is raised during one of the two requests (by the
  client or inside the loop, which covers the iterator and a chunk without choices; for
  the first request or, after a first loop left with the flag not set, for the second),
  the handler raises that exception, with the history list and \<open>is_first_message\<close>
  unchanged and no assistant message appended, while the message list has gained the
  user's message; the send button catches the exception, shows it and leaves the state
  and the log as the handler left them. \<open>stop\<close> is the value of the flag at the raise and
  \<open>lg'\<close> the log at the raise, which holds the \<open>impact_analysis\<close> record once the first
  loop is over.
\<close>

theorem request_exception_state:
  assumes "\<not> stop_button e"
    and "(create e (impact_request (prompt_a user_input)) = Inl msg \<and>
            err = APIError msg \<and> stop = False \<and> lg' = lg) \<or>
         (create e (impact_request (prompt_a user_input)) = Inr evs1 \<and>
            stream_loop evs1 False [] [] = (Some err, stop, r1, a1) \<and> lg' = lg) \<or>
         (create e (impact_request (prompt_a user_input)) = Inr evs1 \<and>
            stream_loop evs1 False [] [] = (None, False, r1, a1) \<and>
            lg' = log_generation (impact_logged_at e) (prompt_a user_input) a1 r1
                    (u ''deepseek-reasoner'') (impact_duration e) (u ''success'')
                    (u ''impact_analysis'') lg \<and>
            ((create e (risk_request (prompt_a user_input) a1) = Inl msg \<and>
                err = APIError msg \<and> stop = False) \<or>
             (create e (risk_request (prompt_a user_input) a1) = Inr evs2 \<and>
                stream_loop evs2 False [] [] = (Some err, stop, r2, a2))))"
  shows "handle_first_message e user_input (s, lg) =
           (Raised err,
            s\<lparr>should_stop := stop,
              messages := messages s @ [\<lparr>role = u ''user'', content = user_input\<rparr>]\<rparr>, lg') \<and>
         history (fst (snd (handle_first_message e user_input (s, lg)))) = history s \<and>
         is_first_message (fst (snd (handle_first_message e user_input (s, lg)))) =
           is_first_message s \<and>
         (is_first_message s \<and> input_box s = user_input \<and> user_input \<noteq> [] \<longrightarrow>
            send_button e (s, lg) =
              (Some err,
               s\<lparr>should_stop := stop,
                 messages := messages s @ [\<lparr>role = u ''user'', content = user_input\<rparr>]\<rparr>,
               lg'))"
proof -
  have run: "handle_first_message e user_input (s, lg) =
           (Raised err,
            s\<lparr>should_stop := stop,
              messages := messages s @ [\<lparr>role = u ''user'', content = user_input\<rparr>]\<rparr>, lg')"
    using assms
    by (auto simp: impact_request_raised impact_stream_raised risk_request_raised
          risk_stream_raised)
  then show ?thesis by (simp add: send_button_def)
qed

text \<open>
  The amended C3 on a fresh session with \<open>news\<close> typed, for a client that raises and for
  a stream that breaks after its first chunk.
\<close>

theorem request_exception_state_witness:
  "send_button (example_env False failing_client) (fresh_session\<lparr>input_box := u ''news''\<rparr>, []) =
     (Some (APIError (u ''timeout'')),
      fresh_session\<lparr>input_box := u ''news'',
        messages := [\<lparr>role = u ''user'', content = u ''news''\<rparr>]\<rparr>, []) \<and>
   handle_first_message (example_env False broken_stream_client) (u ''news'') (fresh_session, []) =
     (Raised (APIError (u ''reset'')),
      fresh_session\<lparr>messages := [\<lparr>role = u ''user'', content = u ''news''\<rparr>]\<rparr>, [])"
proof -
  have caught: "send_button (example_env False failing_client)
                  (fresh_session\<lparr>input_box := u ''news''\<rparr>, []) =
     (Some (APIError (u ''timeout'')),
      fresh_session\<lparr>input_box := u ''news'',
        messages := [\<lparr>role = u ''user'', content = u ''news''\<rparr>]\<rparr>, [])"
    using request_exception_state
      [of "example_env False failing_client" "u ''news''" "u ''timeout''"
          "APIError (u ''timeout'')" False "[]" "[]" "[]" "[]" "[]" "[]" "[]" "[]"
          "fresh_session\<lparr>input_box := u ''news''\<rparr>"]
    by (simp add: example_env_def failing_client_def fresh_session_def u_def)
  have broken: "handle_first_message (example_env False broken_stream_client) (u ''news'')
                  (fresh_session, []) =
     (Raised (APIError (u ''reset'')),
      fresh_session\<lparr>messages := [\<lparr>role = u ''user'', content = u ''news''\<rparr>]\<rparr>, [])"
    using request_exception_state
      [of "example_env False broken_stream_client" "u ''news''" "[]"
          "APIError (u ''reset'')" False "[]" "[]" "[answer (u ''up''), Broken (u ''reset'')]"
          "[]" "u ''up''" "[]" "[]" "[]" fresh_session]
    by (simp add: example_env_def broken_stream_client_def broken_loop fresh_session_def)
  from caught broken show ?thesis by simp
qed

section \<open>The streaming loop, the formatter, the logger and the new-conversation button\<close>

text \<open>
  C10: a chunk that the loop processes (the flag is not set) and whose delta carries a
  non-empty reasoning increment and a non-empty content increment adds its reasoning
  increment to the reasoning accumulator and leaves the answer accumulator as it is;
  and the content increments of such chunks have no effect on anything a loop returns:
  erasing them from the stream gives the same result. The three loops of the two
  handlers are this one loop.
\<close>

theorem reasoning_shadows_content:
  "(truthy (reasoning_content d) \<and> truthy (delta_content d) \<longrightarrow>
      stream_loop (Chunk (d # ds) # evs) False r a =
        stream_loop evs False (r @ text_of (reasoning_content d)) a)
   \<and> stream_loop (map without_shadowed_content evs) stop r a = stream_loop evs stop r a"
  by (simp add: stream_loop_erase)

text \<open>C10 on a chunk with both increments, followed by a chunk with an answer only.\<close>

theorem reasoning_shadows_content_witness:
  "stream_loop [Chunk [\<lparr>reasoning_content = Some (u ''hm''), delta_content = Some (u ''up'')\<rparr>],
                answer (u ''side'')] False [] [] = (None, False, u ''hm'', u ''side'')"
  using reasoning_shadows_content
    [of "\<lparr>reasoning_content = Some (u ''hm''), delta_content = Some (u ''up'')\<rparr>"
        "[]" "[answer (u ''side'')]" "[]" "[]" False]
  by (simp add: answer_def truthy_def text_of_def u_def)

text \<open>
  C6, where the claim fails: the empty text has one newline-separated line (the empty
  one), and the formatter returns the empty text for it (the guard of line 108), whose
  one line does not begin with \<open>"> "\<close>.
\<close>

theorem format_reasoning_as_quote_empty_counterexample:
  "length (split_nl []) = 1 \<and> format_reasoning_as_quote [] = [] \<and>
   take 2 (hd (split_nl (format_reasoning_as_quote []))) \<noteq> u ''> ''"
  by (simp add: format_reasoning_as_quote_def u_def)

text \<open>
  C6, amended: for every non-empty reasoning text, the lines of the formatted text are
  the lines of the text, in their order, each with \<open>"> "\<close> put in front; so there are as
  many of them.
\<close>

theorem format_reasoning_as_quote_lines:
  "t \<noteq> [] \<Longrightarrow>
   split_nl (format_reasoning_as_quote t) = map (\<lambda>line. u ''> '' @ line) (split_nl t)"
  unfolding format_reasoning_as_quote_def
  using split_nl_no_newline [of _ t]
  by (simp add: split_join_nl split_nl_not_Nil u_def)

text \<open>The amended C6 on a text of three lines, the last one empty.\<close>

theorem format_reasoning_as_quote_lines_witness:
  "split_nl (format_reasoning_as_quote (u ''ab'' @ [10] @ u ''c'' @ [10])) =
     [u ''> ab'', u ''> c'', u ''> '']"
  using format_reasoning_as_quote_lines [of "u ''ab'' @ [10] @ u ''c'' @ [10]"]
  by (simp add: u_def)

text \<open>
  C7: a string \<open>x\<close> passed to \<open>log_generation\<close> as input, as output or as reasoning is
  recorded, in the record that the call appends to the sink, as its first 500
  characters followed by \<open>...\<close> if it is longer than 500 characters, and as it is
  otherwise.
\<close>

theorem log_generation_truncates:
  "(500 < length x \<longrightarrow>
      log_input (last (log_generation now x outp rs m d st sp sink)) = take 500 x @ u ''...'' \<and>
      log_output (last (log_generation now inp x rs m d st sp sink)) = take 500 x @ u ''...'' \<and>
      log_reasoning (last (log_generation now inp outp x m d st sp sink)) = take 500 x @ u ''...'')
   \<and> (length x \<le> 500 \<longrightarrow>
      log_input (last (log_generation now x outp rs m d st sp sink)) = x \<and>
      log_output (last (log_generation now inp x rs m d st sp sink)) = x \<and>
      log_reasoning (last (log_generation now inp outp x m d st sp sink)) = x)"
  by (auto simp: log_generation_def)

text \<open>C7 on an input of 501 characters and on an output of two.\<close>

theorem log_generation_truncates_witness:
  "log_input (last (log_generation [] (replicate 501 97) [] [] [] 0 [] [] [])) =
     replicate 500 97 @ [46, 46, 46] \<and>
   log_output (last (log_generation [] [] [98, 99] [] [] 0 [] [] [])) = [98, 99]"
  using log_generation_truncates [of "replicate 501 97" "[]" "[]" "[]" "[]" 0 "[]" "[]" "[]" "[]"]
        log_generation_truncates [of "[98, 99]" "[]" "[]" "[]" "[]" 0 "[]" "[]" "[]" "[]"]
  by (simp add: u_def)

text \<open>
  C8: the new-conversation button sets \<open>is_first_message\<close>, empties the message list and
  leaves the history list as it is.
\<close>

theorem new_conversation_frame:
  "is_first_message (new_conversation s) = True \<and> messages (new_conversation s) = [] \<and>
   history (new_conversation s) = history s"
  by (simp add: new_conversation_def)

end
